theory Spec2Isabelle
  imports Main "HOL-Library.Word"
begin

unbundle bit_operations_syntax

section \<open>Data model of app.py\<close>

text \<open>
  A turn of the chat history is the Python tuple \<open>(user_message, assistant_message)\<close>, an
  entry of \<open>uuid_list\<close> the tuple \<open>(user_uuid, assistant_uuid)\<close>. Python strings are
  modelled as their UTF-8 byte sequences; the only length test of the source compares
  with zero, and the only comparisons are with the empty string.
\<close>

type_synonym turn = "string \<times> string"
type_synonym idpair = "string \<times> string"

text \<open>
  The exceptions the modelled functions can raise: Python's \<open>IndexError\<close> and
  \<open>ValueError\<close>, and the two \<open>gr.Error\<close> of \<open>check_input_token_length\<close> (the first
  carries the token count its message prints).
\<close>

datatype error =
    IndexError
  | ValueError
  | GrError_too_long int
  | GrError_empty_input

section \<open>\<open>str(uuid.uuid4())\<close>\<close>

text \<open>
  \<open>uuid.uuid4()\<close> reads 16 bytes from the operating system, sets the variant and version
  bits and is printed by \<open>str\<close> as 32 hexadecimal digits in the groups 8-4-4-4-12. The
  random bytes are an explicit source: an infinite sequence of 128-bit words, of which every
  call consumes the first.
\<close>

type_synonym entropy = "nat \<Rightarrow> 128 word"

definition hexdigit :: "nat \<Rightarrow> char" where
  "hexdigit d = ''0123456789abcdef'' ! d"

definition hex32 :: "128 word \<Rightarrow> string" where
  "hex32 w = map (\<lambda>i. hexdigit (unat (drop_bit (4 * (31 - i)) w AND 15))) [0..<32]"

definition uuid_v4_bits :: "128 word \<Rightarrow> 128 word" where
  "uuid_v4_bits w =
     (((w AND NOT (push_bit 48 0xC000)) OR push_bit 48 0x8000)
        AND NOT (push_bit 64 0xF000)) OR push_bit 76 4"

definition str_uuid :: "128 word \<Rightarrow> string" where
  "str_uuid w =
     (let h = hex32 w
      in take 8 h @ ''-'' @ take 4 (drop 8 h) @ ''-'' @ take 4 (drop 12 h) @ ''-''
         @ take 4 (drop 16 h) @ ''-'' @ drop 20 h)"

definition uuid4_str :: "entropy \<Rightarrow> string \<times> entropy" where
  "uuid4_str e = (str_uuid (uuid_v4_bits (e 0)), \<lambda>n. e (Suc n))"

section \<open>\<open>assign_uuid\<close>\<close>

text \<open>\<open>list.pop()\<close> removes the last element and raises \<open>IndexError\<close> on an empty list.\<close>

definition pop :: "'a list \<Rightarrow> error + 'a list" where
  "pop xs = (if xs = [] then Inl IndexError else Inr (butlast xs))"

text \<open>
  The loop of the branch \<open>len_history > len_uuid_list\<close>, over
  \<open>history[len_uuid_list:]\<close>; \<open>new\<close> is \<open>new_uuid_list\<close>.
\<close>

fun assign_uuid_grow :: "turn list \<Rightarrow> idpair list \<Rightarrow> entropy \<Rightarrow> idpair list \<times> entropy" where
  "assign_uuid_grow [] new e = (new, e)"
| "assign_uuid_grow (t_history # rest) new e =
     (if snd t_history = [] then
        (let (u, e1) = uuid4_str e
         in assign_uuid_grow rest (new @ [(u, [])]) e1)
      else
        (let (u, e1) = uuid4_str e; (a, e2) = uuid4_str e1
         in assign_uuid_grow rest (new @ [(u, a)]) e2))"

text \<open>
  The loop of the branch \<open>len_history == len_uuid_list\<close>, over
  \<open>zip(history, uuid_list)\<close>: the pairs read are those of the argument \<open>uuid_list\<close>, the
  list changed is \<open>new_uuid_list\<close>, by \<open>pop()\<close> and \<open>append\<close>, that is at its end.
\<close>

fun assign_uuid_scan ::
  "(turn \<times> idpair) list \<Rightarrow> idpair list \<Rightarrow> entropy \<Rightarrow> error + (idpair list \<times> entropy)" where
  "assign_uuid_scan [] new e = Inr (new, e)"
| "assign_uuid_scan ((t_history, t_uuid) # rest) new e =
     (if snd t_history \<noteq> [] \<and> snd t_uuid = [] then
        (case pop new of
           Inl err \<Rightarrow> Inl err
         | Inr popped \<Rightarrow>
             (let (a, e1) = uuid4_str e
              in assign_uuid_scan rest (popped @ [(fst t_uuid, a)]) e1))
      else if snd t_history = [] \<and> snd t_uuid \<noteq> [] then
        (case pop new of
           Inl err \<Rightarrow> Inl err
         | Inr popped \<Rightarrow> assign_uuid_scan rest (popped @ [(fst t_uuid, [])]) e)
      else assign_uuid_scan rest new e)"

definition assign_uuid ::
  "turn list \<Rightarrow> idpair list \<Rightarrow> entropy \<Rightarrow> error + (idpair list \<times> entropy)" where
  "assign_uuid history uuid_list e =
     (let len_history = length history;
          len_uuid_list = length uuid_list;
          new_uuid_list = uuid_list
      in if len_history > len_uuid_list then
           Inr (assign_uuid_grow (drop len_uuid_list history) new_uuid_list e)
         else if len_history < len_uuid_list then
           Inr (take len_history new_uuid_list, e)
         else assign_uuid_scan (zip history uuid_list) new_uuid_list e)"

section \<open>The event handlers\<close>

definition clear_and_save_textbox :: "string \<Rightarrow> string \<times> string" where
  "clear_and_save_textbox message = ([], message)"

definition display_input :: "string \<Rightarrow> turn list \<Rightarrow> turn list" where
  "display_input message history = history @ [(message, [])]"

text \<open>\<open>history.pop()\<close> raises \<open>IndexError\<close> on the empty list, which the handler catches.\<close>

definition delete_prev_fn :: "turn list \<Rightarrow> turn list \<times> string" where
  "delete_prev_fn history =
     (if history = [] then (history, [])
      else (butlast history, fst (last history)))"

definition MAX_MAX_NEW_TOKENS :: int where
  "MAX_MAX_NEW_TOKENS = 2048"

definition MAX_INPUT_TOKEN_LENGTH :: int where
  "MAX_INPUT_TOKEN_LENGTH = 4000"

text \<open>
  \<open>generate\<close> is an asynchronous generator; the model returns the list of the values it
  yields. \<open>run\<close>, of \<open>model_vllm\<close>, is a parameter: the list of the partial responses its
  stream delivers for the given message, history, system prompt, token limit and sampling
  settings (\<open>sampling\<close> stands for temperature, top_p, top_k, do_sample and
  repetition_penalty, which \<open>generate\<close> only passes on). \<open>history_with_input[:-1]\<close> is
  \<open>butlast\<close>, also on the empty list.
\<close>

definition generate ::
  "(string \<Rightarrow> turn list \<Rightarrow> string \<Rightarrow> int \<Rightarrow> 'c \<Rightarrow> string list) \<Rightarrow>
   string \<Rightarrow> turn list \<Rightarrow> string \<Rightarrow> int \<Rightarrow> 'c \<Rightarrow> error + turn list list" where
  "generate run message history_with_input system_prompt max_new_tokens sampling =
     (if max_new_tokens > MAX_MAX_NEW_TOKENS then Inl ValueError
      else
        (let history = butlast history_with_input;
             stream = run message history system_prompt max_new_tokens sampling
         in Inr (map (\<lambda>response. history @ [(message, response)]) stream)))"

text \<open>\<open>get_input_token_length\<close>, of \<open>model_vllm\<close>, is a parameter.\<close>

definition check_input_token_length ::
  "(string \<Rightarrow> turn list \<Rightarrow> string \<Rightarrow> int) \<Rightarrow> string \<Rightarrow> turn list \<Rightarrow> string \<Rightarrow> error + unit" where
  "check_input_token_length get_input_token_length message chat_history system_prompt =
     (let input_token_length = get_input_token_length message chat_history system_prompt
      in if input_token_length > MAX_INPUT_TOKEN_LENGTH then
           Inl (GrError_too_long input_token_length)
         else if int (length message) \<le> 0 then Inl GrError_empty_input
         else Inr ())"

fun join :: "string \<Rightarrow> string list \<Rightarrow> string" where
  "join sep [] = []"
| "join sep [x] = x"
| "join sep (x # y # ys) = x @ sep @ join sep (y # ys)"

text \<open>The two emoji of the transcript, as UTF-8 bytes (U+1F603 and U+1F916).\<close>

definition user_marker :: string where
  "user_marker = [CHR 0xF0, CHR 0x9F, CHR 0x98, CHR 0x83]"

definition sys_marker :: string where
  "sys_marker = [CHR 0xF0, CHR 0x9F, CHR 0xA4, CHR 0x96]"

definition convert_history_to_str :: "turn list \<Rightarrow> string" where
  "convert_history_to_str history =
     join ''<br>''
       (concat (map (\<lambda>(user_utt, sys_utt).
          [user_marker @ '': '' @ user_utt, sys_marker @ '': '' @ sys_utt]) history))"

section \<open>\<open>output_log\<close>\<close>

text \<open>Python's \<open>xs[i]\<close>: a negative index counts from the end, out of range raises.\<close>

definition index :: "'a list \<Rightarrow> int \<Rightarrow> error + 'a" where
  "index xs i =
     (if 0 \<le> i \<and> i < int (length xs) then Inr (xs ! nat i)
      else if i < 0 \<and> - int (length xs) \<le> i then Inr (xs ! nat (int (length xs) + i))
      else Inl IndexError)"

text \<open>The dictionary \<open>d\<close> that \<open>output_log\<close> builds, one field per key.\<close>

record audit_record =
  d_created_at :: string
  d_tree_uuid :: string
  d_parent_uuid :: string
  d_uuid :: string
  d_role :: string
  d_message :: string

text \<open>
  \<open>output_log\<close> up to the dictionary \<open>d\<close>. \<open>created_at\<close> is the formatted reading of the
  clock, a parameter. What follows in the source, the upload to S3, is inside
  \<open>try\<close>/\<open>except Exception\<close> and changes nothing the program reads again.
\<close>

definition output_log :: "turn list \<Rightarrow> idpair list \<Rightarrow> string \<Rightarrow> error + audit_record" where
  "output_log history uuid_list created_at =
     (case index uuid_list 0 of
        Inl err \<Rightarrow> Inl err
      | Inr first_uuids \<Rightarrow>
     (case index history (- 1) of
        Inl err \<Rightarrow> Inl err
      | Inr last_messages \<Rightarrow>
     (case index uuid_list (- 1) of
        Inl err \<Rightarrow> Inl err
      | Inr last_uuids \<Rightarrow>
          (let tree_uuid = fst first_uuids
           in if snd last_uuids = [] then
                (if length history \<ge> 2 then
                   (case index uuid_list (- 2) of
                      Inl err \<Rightarrow> Inl err
                    | Inr prev_uuids \<Rightarrow>
                        Inr \<lparr>d_created_at = created_at, d_tree_uuid = tree_uuid,
                             d_parent_uuid = snd prev_uuids, d_uuid = fst last_uuids,
                             d_role = ''user'', d_message = fst last_messages\<rparr>)
                 else
                   Inr \<lparr>d_created_at = created_at, d_tree_uuid = tree_uuid,
                        d_parent_uuid = fst last_uuids, d_uuid = fst last_uuids,
                        d_role = ''user'', d_message = fst last_messages\<rparr>)
              else
                Inr \<lparr>d_created_at = created_at, d_tree_uuid = tree_uuid,
                     d_parent_uuid = fst last_uuids, d_uuid = snd last_uuids,
                     d_role = ''assistant'', d_message = snd last_messages\<rparr>))))"

section \<open>The event chains\<close>

text \<open>
  The values of the Gradio components and states that the handlers read and write.
  \<open>s3_puts\<close> lists the dictionaries \<open>output_log\<close> has built and handed to the upload,
  \<open>rng\<close> is what is left of the random source.
\<close>

record session =
  textbox :: string
  saved_input :: string
  chatbot :: "turn list"
  uuid_list :: "idpair list"
  output_textbox :: string
  s3_puts :: "audit_record list"
  rng :: entropy

text \<open>
  What a chain reads and never writes: the two functions of \<open>model_vllm\<close>, the clock
  (its formatted reading at the n-th record), the settings of the details panel, and what
  \<open>gr.Chatbot\<close> does to a message written to it. Gradio post-processes every message of a
  history that a handler returns to the chatbot (with \<open>inspect.cleandoc\<close>: leading white
  space goes, a message of white space alone becomes empty), and the next handler reads the
  post-processed history. That function belongs to Gradio and is a parameter.
\<close>

record 'c env =
  get_input_token_length :: "string \<Rightarrow> turn list \<Rightarrow> string \<Rightarrow> int"
  run :: "string \<Rightarrow> turn list \<Rightarrow> string \<Rightarrow> int \<Rightarrow> 'c \<Rightarrow> string list"
  chatbot_postprocess :: "string \<Rightarrow> string"
  clock :: "nat \<Rightarrow> string"
  system_prompt :: string
  max_new_tokens :: int
  sampling :: 'c

text \<open>
  Gradio chains handlers with \<open>.then\<close> and \<open>.success\<close>: a handler chained with \<open>.then\<close>
  runs when its predecessor has finished, whether it raised or not; one chained with
  \<open>.success\<close> runs only if the predecessor finished without raising. A handler that is
  not run finishes nothing, so nothing chained after it runs. The outputs of a handler
  that raises are not written.
\<close>

datatype trigger = Then | Success

type_synonym step = "session \<Rightarrow> error + session"

fun run_chain :: "(trigger \<times> step) list \<Rightarrow> bool \<Rightarrow> session \<Rightarrow> error list \<times> session" where
  "run_chain [] prev_ok s = ([], s)"
| "run_chain ((tr, f) # rest) prev_ok s =
     (if tr = Success \<and> \<not> prev_ok then ([], s)
      else
        (case f s of
           Inl err \<Rightarrow> (let (errs, s') = run_chain rest False s in (err # errs, s'))
         | Inr s1 \<Rightarrow> run_chain rest True s1))"

text \<open>A history as the chatbot keeps it when a handler returns it there.\<close>

definition chatbot_write :: "(string \<Rightarrow> string) \<Rightarrow> turn list \<Rightarrow> turn list" where
  "chatbot_write post history = map (\<lambda>(user_utt, sys_utt). (post user_utt, post sys_utt)) history"

text \<open>Each handler with the inputs and outputs its chain entry names.\<close>

definition clear_and_save_textbox_step :: step where
  "clear_and_save_textbox_step s =
     (let (t, m) = clear_and_save_textbox (textbox s)
      in Inr (s\<lparr>textbox := t, saved_input := m\<rparr>))"

definition check_input_token_length_step :: "'c env \<Rightarrow> step" where
  "check_input_token_length_step env s =
     (case check_input_token_length (get_input_token_length env)
             (saved_input s) (chatbot s) (system_prompt env) of
        Inl err \<Rightarrow> Inl err
      | Inr _ \<Rightarrow> Inr s)"

definition display_input_step :: "'c env \<Rightarrow> step" where
  "display_input_step env s =
     Inr (s\<lparr>chatbot :=
            chatbot_write (chatbot_postprocess env) (display_input (saved_input s) (chatbot s))\<rparr>)"

definition assign_uuid_step :: step where
  "assign_uuid_step s =
     (case assign_uuid (chatbot s) (uuid_list s) (rng s) of
        Inl err \<Rightarrow> Inl err
      | Inr (new_uuid_list, e) \<Rightarrow> Inr (s\<lparr>uuid_list := new_uuid_list, rng := e\<rparr>))"

definition output_log_step :: "'c env \<Rightarrow> step" where
  "output_log_step env s =
     (case output_log (chatbot s) (uuid_list s) (clock env (length (s3_puts s))) of
        Inl err \<Rightarrow> Inl err
      | Inr d \<Rightarrow> Inr (s\<lparr>s3_puts := s3_puts s @ [d]\<rparr>))"

text \<open>Every value \<open>generate\<close> yields is written to the chatbot; the last one stays.\<close>

definition generate_step :: "'c env \<Rightarrow> step" where
  "generate_step env s =
     (case generate (run env) (saved_input s) (chatbot s) (system_prompt env)
             (max_new_tokens env) (sampling env) of
        Inl err \<Rightarrow> Inl err
      | Inr yields \<Rightarrow>
          Inr (s\<lparr>chatbot :=
                 last (chatbot s # map (chatbot_write (chatbot_postprocess env)) yields)\<rparr>))"

definition convert_history_to_str_step :: step where
  "convert_history_to_str_step s =
     Inr (s\<lparr>output_textbox := convert_history_to_str (chatbot s)\<rparr>)"

definition delete_prev_fn_step :: "'c env \<Rightarrow> step" where
  "delete_prev_fn_step env s =
     (let (h, m) = delete_prev_fn (chatbot s)
      in Inr (s\<lparr>chatbot := chatbot_write (chatbot_postprocess env) h, saved_input := m\<rparr>))"

definition restore_textbox_step :: step where
  "restore_textbox_step s = Inr (s\<lparr>textbox := saved_input s\<rparr>)"

text \<open>The handler of the clear button returns the empty history, which has no message.\<close>

definition clear_step :: step where
  "clear_step s = Inr (s\<lparr>chatbot := [], saved_input := []\<rparr>)"

definition textbox_submit :: "'c env \<Rightarrow> (trigger \<times> step) list" where
  "textbox_submit env =
     [(Then, clear_and_save_textbox_step),
      (Then, check_input_token_length_step env),
      (Success, display_input_step env),
      (Then, assign_uuid_step),
      (Then, output_log_step env),
      (Then, generate_step env),
      (Then, assign_uuid_step),
      (Then, output_log_step env),
      (Then, convert_history_to_str_step)]"

definition submit_button_click :: "'c env \<Rightarrow> (trigger \<times> step) list" where
  "submit_button_click env =
     [(Then, clear_and_save_textbox_step),
      (Then, check_input_token_length_step env),
      (Success, display_input_step env),
      (Then, assign_uuid_step),
      (Then, output_log_step env),
      (Success, generate_step env),
      (Then, assign_uuid_step),
      (Then, output_log_step env),
      (Then, convert_history_to_str_step)]"

definition retry_button_click :: "'c env \<Rightarrow> (trigger \<times> step) list" where
  "retry_button_click env =
     [(Then, delete_prev_fn_step env),
      (Then, check_input_token_length_step env),
      (Success, display_input_step env),
      (Then, assign_uuid_step),
      (Then, output_log_step env),
      (Then, generate_step env),
      (Then, assign_uuid_step),
      (Then, output_log_step env),
      (Then, convert_history_to_str_step)]"

definition undo_button_click :: "'c env \<Rightarrow> (trigger \<times> step) list" where
  "undo_button_click env =
     [(Then, delete_prev_fn_step env),
      (Then, assign_uuid_step),
      (Then, restore_textbox_step),
      (Then, convert_history_to_str_step)]"

definition clear_button_click :: "(trigger \<times> step) list" where
  "clear_button_click =
     [(Then, clear_step),
      (Then, assign_uuid_step),
      (Then, convert_history_to_str_step)]"

section \<open>The properties stated of the identity list\<close>

text \<open>
  A turn is complete when its assistant message is not empty, an identity pair when its
  assistant uuid is not empty; they agree when both are complete or neither is.
\<close>

definition agrees :: "turn \<Rightarrow> idpair \<Rightarrow> bool" where
  "agrees t p = ((snd p = []) = (snd t = []))"

text \<open>
  The positions \<open>assign_uuid\<close> does not look at again: those common to both lists, but
  for the last one when the lengths are equal.
\<close>

definition prefix_agrees :: "turn list \<Rightarrow> idpair list \<Rightarrow> bool" where
  "prefix_agrees h l =
     (let n = (if length h = length l then length h - 1 else min (length h) (length l))
      in list_all2 agrees (take n h) (take n l))"

text \<open>A series of \<open>assign_uuid\<close> calls, each on the identity list the one before returned.\<close>

fun assign_uuid_seq ::
  "turn list list \<Rightarrow> idpair list \<Rightarrow> entropy \<Rightarrow> error + (idpair list list \<times> entropy)" where
  "assign_uuid_seq [] l e = Inr ([], e)"
| "assign_uuid_seq (h # hs) l e =
     (case assign_uuid h l e of
        Inl err \<Rightarrow> Inl err
      | Inr (l1, e1) \<Rightarrow>
          (case assign_uuid_seq hs l1 e1 of
             Inl err \<Rightarrow> Inl err
           | Inr (ls, e2) \<Rightarrow> Inr (l1 # ls, e2)))"

text \<open>
  The specification's reading of a blank message: nothing is left when the white space
  (as Python's \<open>str.strip\<close> takes it, within ASCII) is removed from both ends.
\<close>

definition spec_is_space :: "char \<Rightarrow> bool" where
  "spec_is_space c = (c \<in> set [CHR 0x20, CHR 0x09, CHR 0x0A, CHR 0x0B, CHR 0x0C, CHR 0x0D,
                                CHR 0x1C, CHR 0x1D, CHR 0x1E, CHR 0x1F])"

definition spec_strip :: "string \<Rightarrow> string" where
  "spec_strip m = rev (dropWhile spec_is_space (rev (dropWhile spec_is_space m)))"

definition spec_blank :: "string \<Rightarrow> bool" where
  "spec_blank m = (spec_strip m = [])"

text \<open>Concrete parameters for the evaluations below.\<close>

definition entropy_from :: "nat \<Rightarrow> entropy" where
  "entropy_from k n = of_nat (k + n)"

definition sample_token_length :: "string \<Rightarrow> turn list \<Rightarrow> string \<Rightarrow> int" where
  "sample_token_length message chat_history sp =
     int (length message) + int (length (concat (map (\<lambda>(u, a). u @ a) chat_history)))
       + int (length sp)"

definition sample_run :: "string \<Rightarrow> turn list \<Rightarrow> string \<Rightarrow> int \<Rightarrow> unit \<Rightarrow> string list" where
  "sample_run message history sp n c = [''A'', ''An'', ''Ans'']"

definition sample_postprocess :: "string \<Rightarrow> string" where
  "sample_postprocess m = dropWhile (\<lambda>c. c = CHR '' '') m"

definition sample_env :: "unit env" where
  "sample_env =
     \<lparr>get_input_token_length = sample_token_length, run = sample_run,
      chatbot_postprocess = sample_postprocess,
      clock = (\<lambda>n. ''2023-12-27 00:00:00.000000''), system_prompt = ''sys'',
      max_new_tokens = 512, sampling = ()\<rparr>"

definition sample_session :: session where
  "sample_session =
     \<lparr>textbox = [], saved_input = [], chatbot = [], uuid_list = [], output_textbox = [],
      s3_puts = [], rng = entropy_from 0\<rparr>"

section \<open>Printed uuids\<close>

lemma length_hex32: "length (hex32 w) = 32"
  by (simp add: hex32_def)

lemma length_str_uuid: "length (str_uuid w) = 36"
  by (simp add: str_uuid_def Let_def length_hex32)

lemma str_uuid_nonempty: "str_uuid w \<noteq> []"
  using length_str_uuid [of w] by auto

lemma uuid4_str_nonempty: "fst (uuid4_str e) \<noteq> []"
  by (simp add: uuid4_str_def str_uuid_nonempty)

lemma uuid4_str_entropy_from:
  "uuid4_str (entropy_from k) = (str_uuid (uuid_v4_bits (of_nat k)), entropy_from (Suc k))"
  by (simp add: uuid4_str_def entropy_from_def fun_eq_iff)

lemma str_uuid_example:
  "str_uuid (uuid_v4_bits 0) = ''00000000-0000-4000-8000-000000000000''"
  by code_simp

lemma str_uuid_example2:
  "str_uuid (uuid_v4_bits (- 1)) = ''ffffffff-ffff-4fff-bfff-ffffffffffff''"
  by code_simp

section \<open>The three branches of \<open>assign_uuid\<close>\<close>

lemma assign_uuid_grow_appends:
  "\<exists>ids e'. assign_uuid_grow ts new e = (new @ ids, e') \<and> list_all2 agrees ts ids"
proof (induction ts arbitrary: new e)
  case Nil
  then show ?case by simp
next
  case (Cons t ts)
  obtain u e1 where u: "uuid4_str e = (u, e1)" by (cases "uuid4_str e")
  obtain a e2 where a: "uuid4_str e1 = (a, e2)" by (cases "uuid4_str e1")
  have une: "u \<noteq> []" using uuid4_str_nonempty [of e] u by simp
  have ane: "a \<noteq> []" using uuid4_str_nonempty [of e1] a by simp
  show ?case
  proof (cases "snd t = []")
    case True
    from Cons.IH [of "new @ [(u, [])]" e1]
    obtain ids e' where "assign_uuid_grow ts (new @ [(u, [])]) e1 = ((new @ [(u, [])]) @ ids, e')"
      and "list_all2 agrees ts ids" by blast
    then have "assign_uuid_grow (t # ts) new e = (new @ ((u, []) # ids), e')
        \<and> list_all2 agrees (t # ts) ((u, []) # ids)"
      using True u by (simp add: agrees_def)
    then show ?thesis by blast
  next
    case False
    from Cons.IH [of "new @ [(u, a)]" e2]
    obtain ids e' where "assign_uuid_grow ts (new @ [(u, a)]) e2 = ((new @ [(u, a)]) @ ids, e')"
      and "list_all2 agrees ts ids" by blast
    then have "assign_uuid_grow (t # ts) new e = (new @ ((u, a) # ids), e')
        \<and> list_all2 agrees (t # ts) ((u, a) # ids)"
      using False u a ane by (simp add: agrees_def)
    then show ?thesis by blast
  qed
qed

lemma assign_uuid_scan_agreeing_prefix:
  "\<forall>z\<in>set zs. agrees (fst z) (snd z) \<Longrightarrow>
   assign_uuid_scan (zs @ ys) new e = assign_uuid_scan ys new e"
  by (induction zs arbitrary: new e) (auto simp: agrees_def)

lemma assign_uuid_scan_length:
  "new \<noteq> [] \<Longrightarrow>
   \<exists>new' e'. assign_uuid_scan zs new e = Inr (new', e') \<and> length new' = length new"
proof (induction zs arbitrary: new e)
  case Nil
  then show ?case by simp
next
  case (Cons z zs)
  obtain t p where z: "z = (t, p)" by (cases z)
  obtain a e1 where a: "uuid4_str e = (a, e1)" by (cases "uuid4_str e")
  have len: "length (butlast new @ [q]) = length new" for q :: idpair
    using Cons.prems by (simp add: Suc_diff_1)
  consider (fill) "snd t \<noteq> [] \<and> snd p = []" | (reset) "snd t = [] \<and> snd p \<noteq> []"
    | (keep) "(snd t = []) = (snd p = [])" by blast
  then show ?case
  proof cases
    case fill
    from Cons.IH [of "butlast new @ [(fst p, a)]" e1] len [of "(fst p, a)"]
    show ?thesis using fill z a Cons.prems by (simp add: pop_def)
  next
    case reset
    from Cons.IH [of "butlast new @ [(fst p, [])]" e] len [of "(fst p, [])"]
    show ?thesis using reset z Cons.prems by (simp add: pop_def)
  next
    case keep
    from Cons.IH [of new e] Cons.prems
    show ?thesis using keep z by auto
  qed
qed

lemma assign_uuid_scan_agreeing:
  "\<forall>z\<in>set zs. agrees (fst z) (snd z) \<Longrightarrow> assign_uuid_scan zs new e = Inr (new, e)"
  using assign_uuid_scan_agreeing_prefix [of zs "[]" new e] by simp

lemma list_all2_agrees_zip:
  "list_all2 agrees h l \<Longrightarrow> \<forall>z\<in>set (zip h l). agrees (fst z) (snd z)"
  by (auto simp: list_all2_iff)

lemma assign_uuid_fixpoint:
  assumes "list_all2 agrees h l"
  shows "assign_uuid h l e = Inr (l, e)"
proof -
  have "length h = length l" using assms by (rule list_all2_lengthD)
  then show ?thesis
    using assign_uuid_scan_agreeing [OF list_all2_agrees_zip [OF assms], of l e]
    by (simp add: assign_uuid_def)
qed

lemma assign_uuid_total:
  "\<exists>l' e'. assign_uuid h l e = Inr (l', e') \<and> length l' = length h"
proof -
  consider (grow) "length l < length h" | (shrink) "length h < length l"
    | (same) "length h = length l" by linarith
  then show ?thesis
  proof cases
    case grow
    obtain ids e' where g: "assign_uuid_grow (drop (length l) h) l e = (l @ ids, e')"
      and a: "list_all2 agrees (drop (length l) h) ids"
      using assign_uuid_grow_appends by blast
    have "length ids = length h - length l" using list_all2_lengthD [OF a] by simp
    then show ?thesis using grow g by (simp add: assign_uuid_def)
  next
    case shrink
    then show ?thesis by (simp add: assign_uuid_def)
  next
    case same
    show ?thesis
    proof (cases "l = []")
      case True
      then show ?thesis using same by (simp add: assign_uuid_def)
    next
      case False
      from assign_uuid_scan_length [OF False, of "zip h l" e]
      show ?thesis using same by (simp add: assign_uuid_def)
    qed
  qed
qed

lemma assign_uuid_scan_last:
  assumes "list_all2 agrees hs ls"
  shows "assign_uuid_scan (zip (hs @ [t]) (ls @ [p])) (ls @ [p]) e =
           (if snd t \<noteq> [] \<and> snd p = [] then
              Inr (ls @ [(fst p, fst (uuid4_str e))], snd (uuid4_str e))
            else if snd t = [] \<and> snd p \<noteq> [] then Inr (ls @ [(fst p, [])], e)
            else Inr (ls @ [p], e))"
proof -
  have len: "length hs = length ls" using assms by (rule list_all2_lengthD)
  have "assign_uuid_scan (zip (hs @ [t]) (ls @ [p])) (ls @ [p]) e
          = assign_uuid_scan (zip hs ls @ [(t, p)]) (ls @ [p]) e"
    using len by simp
  also have "\<dots> = assign_uuid_scan [(t, p)] (ls @ [p]) e"
    using assign_uuid_scan_agreeing_prefix [OF list_all2_agrees_zip [OF assms]] by simp
  finally show ?thesis
    by (simp add: pop_def split: prod.split)
qed

lemma assign_uuid_restores:
  assumes "prefix_agrees h l"
  shows "\<exists>l' e'. assign_uuid h l e = Inr (l', e') \<and> list_all2 agrees h l'"
proof -
  consider (grow) "length l < length h" | (shrink) "length h < length l"
    | (same) "length h = length l" by linarith
  then show ?thesis
  proof cases
    case grow
    obtain ids e' where g: "assign_uuid_grow (drop (length l) h) l e = (l @ ids, e')"
      and a: "list_all2 agrees (drop (length l) h) ids"
      using assign_uuid_grow_appends by blast
    have "list_all2 agrees (take (length l) h) l"
      using assms grow by (simp add: prefix_agrees_def)
    then have "list_all2 agrees (take (length l) h @ drop (length l) h) (l @ ids)"
      using a by (rule list_all2_appendI)
    then show ?thesis using grow g by (simp add: assign_uuid_def)
  next
    case shrink
    then show ?thesis using assms by (simp add: assign_uuid_def prefix_agrees_def)
  next
    case same
    show ?thesis
    proof (cases "l = []")
      case True
      then show ?thesis using same by (simp add: assign_uuid_def)
    next
      case False
      then obtain ls p where l: "l = ls @ [p]" by (metis rev_exhaust)
      then have "h \<noteq> []" using same by auto
      then obtain hs t where h: "h = hs @ [t]" by (metis rev_exhaust)
      have ag: "list_all2 agrees hs ls"
        using assms same h l by (simp add: prefix_agrees_def)
      have une: "fst (uuid4_str e) \<noteq> []" by (rule uuid4_str_nonempty)
      have "assign_uuid h l e = assign_uuid_scan (zip (hs @ [t]) (ls @ [p])) (ls @ [p]) e"
        using same h l by (simp add: assign_uuid_def)
      then show ?thesis
        unfolding assign_uuid_scan_last [OF ag] h l
        using ag une by (auto simp: agrees_def list_all2_appendI)
    qed
  qed
qed

lemma assign_uuid_seq_fixpoint:
  "\<forall>h\<in>set hs. list_all2 agrees h l \<Longrightarrow>
   assign_uuid_seq hs l e = Inr (replicate (length hs) l, e)"
  by (induction hs) (simp_all add: assign_uuid_fixpoint)

section \<open>Indexing\<close>

lemma index_empty: "index [] i = Inl IndexError"
  by (simp add: index_def)

lemma index_first: "xs \<noteq> [] \<Longrightarrow> index xs 0 = Inr (hd xs)"
  by (simp add: index_def hd_conv_nth)

lemma index_last: "xs \<noteq> [] \<Longrightarrow> index xs (- 1) = Inr (last xs)"
proof -
  assume ne: "xs \<noteq> []"
  then have pos: "Suc 0 \<le> length xs" by (cases xs) simp_all
  then have "nat (int (length xs) + - 1) = length xs - 1" by linarith
  then show ?thesis using ne pos by (simp add: index_def last_conv_nth)
qed

lemma index_prev: "2 \<le> length xs \<Longrightarrow> index xs (- 2) = Inr (xs ! (length xs - 2))"
proof -
  assume two: "2 \<le> length xs"
  then have "nat (int (length xs) + - 2) = length xs - 2" by linarith
  then show ?thesis using two by (simp add: index_def)
qed

lemma output_log_nonempty:
  assumes "h \<noteq> []" and "length l = length h"
  shows "output_log h l now =
           Inr (if snd (last l) = [] then
                  \<lparr>d_created_at = now, d_tree_uuid = fst (hd l),
                   d_parent_uuid =
                     (if 2 \<le> length h then snd (l ! (length l - 2)) else fst (last l)),
                   d_uuid = fst (last l), d_role = ''user'', d_message = fst (last h)\<rparr>
                else
                  \<lparr>d_created_at = now, d_tree_uuid = fst (hd l),
                   d_parent_uuid = fst (last l), d_uuid = snd (last l),
                   d_role = ''assistant'', d_message = snd (last h)\<rparr>)"
proof -
  have l: "l \<noteq> []" using assms by auto
  have prev: "index l (- 2) = Inr (l ! (length l - 2))" if "2 \<le> length h"
    using that assms(2) index_prev [of l] by simp
  show ?thesis
    unfolding output_log_def index_first [OF l] index_last [OF l] index_last [OF assms(1)]
    using prev by (simp add: Let_def)
qed


section \<open>A whole submit\<close>

text \<open>
  Scenario A of the specification, on the sample parameters and a message that begins
  with a space: the message is validated, shown (without the space, which the saved input
  keeps), given a user uuid and logged as shown; the three partial responses replace one
  another; the assistant uuid is drawn once, after the stream, and the response is logged.
\<close>

lemma scenario_A:
  "run_chain (textbox_submit sample_env) True (sample_session\<lparr>textbox := '' hello''\<rparr>)
     = ([], \<lparr>textbox = [], saved_input = '' hello'', chatbot = [(''hello'', ''Ans'')],
             uuid_list = [(str_uuid (uuid_v4_bits 0), str_uuid (uuid_v4_bits 1))],
             output_textbox = user_marker @ '': hello<br>'' @ sys_marker @ '': Ans'',
             s3_puts =
               [\<lparr>d_created_at = ''2023-12-27 00:00:00.000000'',
                 d_tree_uuid = str_uuid (uuid_v4_bits 0),
                 d_parent_uuid = str_uuid (uuid_v4_bits 0),
                 d_uuid = str_uuid (uuid_v4_bits 0), d_role = ''user'',
                 d_message = ''hello''\<rparr>,
                \<lparr>d_created_at = ''2023-12-27 00:00:00.000000'',
                 d_tree_uuid = str_uuid (uuid_v4_bits 0),
                 d_parent_uuid = str_uuid (uuid_v4_bits 0),
                 d_uuid = str_uuid (uuid_v4_bits 1), d_role = ''assistant'',
                 d_message = ''Ans''\<rparr>],
             rng = entropy_from 2\<rparr>)"
  by (simp add: textbox_submit_def sample_env_def sample_session_def
      clear_and_save_textbox_step_def clear_and_save_textbox_def
      check_input_token_length_step_def check_input_token_length_def sample_token_length_def
      MAX_INPUT_TOKEN_LENGTH_def display_input_step_def display_input_def
      assign_uuid_step_def assign_uuid_def uuid4_str_entropy_from pop_def
      output_log_step_def output_log_def index_def generate_step_def generate_def
      MAX_MAX_NEW_TOKENS_def sample_run_def convert_history_to_str_step_def
      convert_history_to_str_def str_uuid_nonempty numeral_2_eq_2
      chatbot_write_def sample_postprocess_def)

section \<open>The identity invariant\<close>

text \<open>
  C1 as stated, for every turn list and every identity list, fails: \<open>assign_uuid\<close> only
  cuts a longer identity list, and the pair it keeps stays complete beside a turn that
  awaits its response.
\<close>

theorem assign_uuid_invariant_counterexample:
  "assign_uuid [(''a'', '''')] [(''u1'', ''x1''), (''u2'', ''x2'')] (entropy_from 0)
     = Inr ([(''u1'', ''x1'')], entropy_from 0)
   \<and> snd ([(''u1'', ''x1'')] ! 0) \<noteq> [] \<and> snd ([(''a'', '''')] ! 0) = []"
  by (simp add: assign_uuid_def)

text \<open>
  C1, amended: \<open>assign_uuid\<close> always returns, with an identity list as long as the turn
  list; and if the pairs it is given agree with their turns at every common position (the
  last position of two lists of equal length apart), then in the list it returns the
  assistant uuid at a position is empty exactly when the assistant message of the turn at
  that position is.
\<close>

theorem assign_uuid_invariant:
  "\<exists>l' e'. assign_uuid h l e = Inr (l', e') \<and> length l' = length h
     \<and> (prefix_agrees h l \<longrightarrow>
          (\<forall>i<length h. (snd (l' ! i) = []) = (snd (h ! i) = [])))"
proof -
  obtain l' e' where r: "assign_uuid h l e = Inr (l', e')" and len: "length l' = length h"
    using assign_uuid_total by blast
  have "\<forall>i<length h. (snd (l' ! i) = []) = (snd (h ! i) = [])" if "prefix_agrees h l"
  proof -
    from assign_uuid_restores [OF that, of e] r have "list_all2 agrees h l'" by simp
    then show ?thesis by (simp add: list_all2_conv_all_nth agrees_def)
  qed
  with r len show ?thesis by blast
qed

theorem assign_uuid_invariant_witness:
  "prefix_agrees [(''a'', ''A''), (''b'', '''')] [(''u1'', ''x1'')]
   \<and> (\<exists>l' e'. assign_uuid [(''a'', ''A''), (''b'', '''')] [(''u1'', ''x1'')] (entropy_from 0)
                  = Inr (l', e')
         \<and> length l' = 2 \<and> snd (l' ! 0) \<noteq> [] \<and> snd (l' ! 1) = [])"
proof -
  have p: "prefix_agrees [(''a'', ''A''), (''b'', '''')] [(''u1'', ''x1'')]"
    by (simp add: prefix_agrees_def agrees_def)
  from assign_uuid_invariant [of "[(''a'', ''A''), (''b'', '''')]" "[(''u1'', ''x1'')]" "entropy_from 0"]
  obtain l' e' where
    r: "assign_uuid [(''a'', ''A''), (''b'', '''')] [(''u1'', ''x1'')] (entropy_from 0) = Inr (l', e')"
    and len: "length l' = 2"
    and q: "\<forall>i<2. (snd (l' ! i) = []) = (snd ([(''a'', ''A''), (''b'', '''')] ! i) = [])"
    using p by auto
  have "snd (l' ! 0) \<noteq> []" using q [rule_format, of 0] by simp
  moreover have "snd (l' ! 1) = []" using q [rule_format, of 1] by simp
  ultimately show ?thesis using p r len by blast
qed

section \<open>A flip before the last position\<close>

text \<open>
  C2, at two identity lists that \<open>assign_uuid\<close> itself produces when a turn list of one
  complete turn meets a stale pair without assistant uuid and a message is submitted: the
  first pair disagrees with its turn. C2 has the first pair replaced by its user uuid with
  a fresh assistant uuid and the other pair left alone (or, where the last turn has become
  complete as well, treated likewise). \<open>assign_uuid\<close> builds that replacement and writes
  it over the last pair: the first pair is never changed, the last pair loses its user
  uuid, or a drawn uuid is thrown away.
\<close>

theorem assign_uuid_interior_flip:
  "assign_uuid [(''ex'', ''R''), (''b'', '''')] [(''u1'', ''''), (''u2'', '''')] (entropy_from 0)
     = Inr ([(''u1'', ''''), (''u1'', str_uuid (uuid_v4_bits 0))], entropy_from 1)
   \<and> assign_uuid [(''ex'', ''R''), (''b'', ''B'')] [(''u1'', ''''), (''u2'', '''')] (entropy_from 0)
     = Inr ([(''u1'', ''''), (''u2'', str_uuid (uuid_v4_bits 1))], entropy_from 2)"
  by (simp add: assign_uuid_def pop_def uuid4_str_entropy_from numeral_2_eq_2)

section \<open>Idempotence\<close>

text \<open>
  C3 as stated fails: the first call only cuts the identity list, the second resets the
  pair the first one kept.
\<close>

theorem assign_uuid_idempotent_counterexample:
  "assign_uuid [(''a'', '''')] [(''u1'', ''x1''), (''u2'', ''x2'')] (entropy_from 0)
     = Inr ([(''u1'', ''x1'')], entropy_from 0)
   \<and> assign_uuid [(''a'', '''')] [(''u1'', ''x1'')] (entropy_from 0)
     = Inr ([(''u1'', '''')], entropy_from 0)
   \<and> [(''u1'', '''')] \<noteq> [(''u1'', ''x1'')]"
  by (simp add: assign_uuid_def pop_def)

text \<open>
  C3, amended: if the pairs given to the first call agree with their turns at every common
  position (the last position of two lists of equal length apart), a second call of
  \<open>assign_uuid\<close> on the same turn list and the first call's result returns that result,
  and draws no uuid.
\<close>

theorem assign_uuid_idempotent:
  assumes "prefix_agrees h l"
  shows "\<exists>l1 e1. assign_uuid h l e = Inr (l1, e1) \<and> assign_uuid h l1 e2 = Inr (l1, e2)"
proof -
  obtain l1 e1 where r: "assign_uuid h l e = Inr (l1, e1)" and a: "list_all2 agrees h l1"
    using assign_uuid_restores [OF assms] by blast
  from assign_uuid_fixpoint [OF a] r show ?thesis by blast
qed

theorem assign_uuid_idempotent_witness:
  "prefix_agrees [(''a'', ''A''), (''b'', ''B'')] [(''u1'', ''x1''), (''u2'', '''')]
   \<and> assign_uuid [(''a'', ''A''), (''b'', ''B'')] [(''u1'', ''x1''), (''u2'', '''')] (entropy_from 0)
       = Inr ([(''u1'', ''x1''), (''u2'', str_uuid (uuid_v4_bits 0))], entropy_from 1)
   \<and> assign_uuid [(''a'', ''A''), (''b'', ''B'')]
        [(''u1'', ''x1''), (''u2'', str_uuid (uuid_v4_bits 0))] (entropy_from 1)
       = Inr ([(''u1'', ''x1''), (''u2'', str_uuid (uuid_v4_bits 0))], entropy_from 1)"
proof -
  have p: "prefix_agrees [(''a'', ''A''), (''b'', ''B'')] [(''u1'', ''x1''), (''u2'', '''')]"
    by (simp add: prefix_agrees_def agrees_def)
  have r: "assign_uuid [(''a'', ''A''), (''b'', ''B'')] [(''u1'', ''x1''), (''u2'', '''')] (entropy_from 0)
       = Inr ([(''u1'', ''x1''), (''u2'', str_uuid (uuid_v4_bits 0))], entropy_from 1)"
    by (simp add: assign_uuid_def pop_def uuid4_str_entropy_from)
  from assign_uuid_idempotent [OF p, of "entropy_from 0" "entropy_from 1"] r p
  show ?thesis by simp
qed

section \<open>Validation\<close>

text \<open>
  C4 as stated fails: the message of one space is blank after trimming and passes
  \<open>check_input_token_length\<close>.
\<close>

theorem check_input_token_length_blank_counterexample:
  "spec_blank '' '' \<and> check_input_token_length sample_token_length '' '' [] [] = Inr ()"
  by (simp add: spec_blank_def spec_strip_def spec_is_space_def check_input_token_length_def
      sample_token_length_def MAX_INPUT_TOKEN_LENGTH_def)

text \<open>
  C4, amended: \<open>check_input_token_length\<close> trims nothing. It raises the empty-input
  error exactly when the token count is within the limit and the message has no character
  at all, returns exactly when the count is within the limit and the message has at least
  one character, white space or not, and raises the length error, whatever the message,
  exactly when the count is over the limit.
\<close>

theorem check_input_token_length_empty:
  "(check_input_token_length tok m h sp = Inl GrError_empty_input)
     = (tok m h sp \<le> MAX_INPUT_TOKEN_LENGTH \<and> m = [])
   \<and> (check_input_token_length tok m h sp = Inr ())
     = (tok m h sp \<le> MAX_INPUT_TOKEN_LENGTH \<and> m \<noteq> [])
   \<and> (check_input_token_length tok m h sp = Inl (GrError_too_long (tok m h sp)))
     = (tok m h sp > MAX_INPUT_TOKEN_LENGTH)"
  by (auto simp: check_input_token_length_def Let_def)

text \<open>
  C5: if \<open>check_input_token_length\<close> raises on the text of the textbox, the chatbot's
  history and the system prompt, both submit chains (the textbox's and the button's) end
  there with that one error: the text has moved from the textbox to the saved input, and
  the chatbot, \<open>uuid_list\<close> and everything else are as before the event.
\<close>

theorem submit_validation_failure:
  assumes "check_input_token_length (get_input_token_length env) (textbox s) (chatbot s)
             (system_prompt env) = Inl err"
  shows "run_chain (textbox_submit env) True s
           = ([err], s\<lparr>textbox := [], saved_input := textbox s\<rparr>)
         \<and> run_chain (submit_button_click env) True s
           = ([err], s\<lparr>textbox := [], saved_input := textbox s\<rparr>)
         \<and> chatbot (snd (run_chain (textbox_submit env) True s)) = chatbot s
         \<and> uuid_list (snd (run_chain (textbox_submit env) True s)) = uuid_list s
         \<and> chatbot (snd (run_chain (submit_button_click env) True s)) = chatbot s
         \<and> uuid_list (snd (run_chain (submit_button_click env) True s)) = uuid_list s"
  using assms
  by (simp add: textbox_submit_def submit_button_click_def clear_and_save_textbox_step_def
      clear_and_save_textbox_def check_input_token_length_step_def)

theorem submit_validation_failure_witness:
  "check_input_token_length (get_input_token_length sample_env)
      (textbox (sample_session\<lparr>chatbot := [(''a'', ''A'')], uuid_list := [(''u1'', ''x1'')]\<rparr>))
      (chatbot (sample_session\<lparr>chatbot := [(''a'', ''A'')], uuid_list := [(''u1'', ''x1'')]\<rparr>))
      (system_prompt sample_env) = Inl GrError_empty_input
   \<and> chatbot (snd (run_chain (textbox_submit sample_env) True
        (sample_session\<lparr>chatbot := [(''a'', ''A'')], uuid_list := [(''u1'', ''x1'')]\<rparr>)))
       = [(''a'', ''A'')]
   \<and> uuid_list (snd (run_chain (textbox_submit sample_env) True
        (sample_session\<lparr>chatbot := [(''a'', ''A'')], uuid_list := [(''u1'', ''x1'')]\<rparr>)))
       = [(''u1'', ''x1'')]"
proof -
  have a: "check_input_token_length (get_input_token_length sample_env)
      (textbox (sample_session\<lparr>chatbot := [(''a'', ''A'')], uuid_list := [(''u1'', ''x1'')]\<rparr>))
      (chatbot (sample_session\<lparr>chatbot := [(''a'', ''A'')], uuid_list := [(''u1'', ''x1'')]\<rparr>))
      (system_prompt sample_env) = Inl GrError_empty_input"
    by (simp add: check_input_token_length_def sample_env_def sample_session_def
        sample_token_length_def MAX_INPUT_TOKEN_LENGTH_def)
  from submit_validation_failure [OF a] a show ?thesis
    by (simp add: sample_session_def)
qed

section \<open>The audit record\<close>

text \<open>
  C6: for a non-empty history and a \<open>uuid_list\<close> of the same length, \<open>output_log\<close>
  builds a record whose tree uuid is the user uuid of the first pair; whose role is user
  exactly when the assistant uuid of the last pair is empty, and then its uuid is the last
  pair's user uuid, its message the last turn's user message, its parent the assistant
  uuid of the pair before the last, or the last pair's own user uuid when there is one
  turn; otherwise its role is assistant, its uuid the last pair's assistant uuid, its
  message the last turn's assistant message and its parent the last pair's user uuid.
\<close>

theorem output_log_record:
  assumes "h \<noteq> []" and "length l = length h"
  shows "\<exists>d. output_log h l now = Inr d
           \<and> d_created_at d = now
           \<and> d_tree_uuid d = fst (hd l)
           \<and> ((d_role d = ''user'') = (snd (last l) = []))
           \<and> (if snd (last l) = [] then
                d_uuid d = fst (last l) \<and> d_message d = fst (last h)
                \<and> d_parent_uuid d =
                    (if length h = 1 then fst (last l) else snd (l ! (length l - 2)))
              else
                d_role d = ''assistant'' \<and> d_uuid d = snd (last l)
                \<and> d_message d = snd (last h) \<and> d_parent_uuid d = fst (last l))"
proof -
  have "0 < length h" using assms(1) by simp
  then have one: "(length h = 1) = (\<not> 2 \<le> length h)" by linarith
  show ?thesis
    unfolding output_log_nonempty [OF assms] one
    by (cases "snd (last l) = []") simp_all
qed

theorem output_log_record_witness:
  "[(''a'', ''A''), (''b'', '''')] \<noteq> []
   \<and> length [(''u1'', ''x1''), (''u2'', '''')] = length [(''a'', ''A''), (''b'', '''')]
   \<and> output_log [(''a'', ''A''), (''b'', '''')] [(''u1'', ''x1''), (''u2'', '''')] ''t''
       = Inr \<lparr>d_created_at = ''t'', d_tree_uuid = ''u1'', d_parent_uuid = ''x1'',
              d_uuid = ''u2'', d_role = ''user'', d_message = ''b''\<rparr>"
proof -
  have a: "[(''a'', ''A''), (''b'', '''')] \<noteq> []" by simp
  have b: "length [(''u1'', ''x1''), (''u2'', '''')] = length [(''a'', ''A''), (''b'', '''')]"
    by simp
  from output_log_record [OF a b, of "''t''"] show ?thesis by auto
qed

text \<open>
  C10: \<open>output_log\<close> raises \<open>IndexError\<close>, and builds no record, whenever the history
  or \<open>uuid_list\<close> is empty; for a non-empty history and a \<open>uuid_list\<close> of the same
  length it builds a record.
\<close>

theorem output_log_index_errors:
  "((h = [] \<or> l = []) \<longrightarrow> output_log h l now = Inl IndexError)
   \<and> (h \<noteq> [] \<and> length l = length h \<longrightarrow> (\<exists>d. output_log h l now = Inr d))"
proof (intro conjI impI)
  assume e: "h = [] \<or> l = []"
  show "output_log h l now = Inl IndexError"
  proof (cases "l = []")
    case True
    then show ?thesis by (simp add: output_log_def index_empty)
  next
    case False
    then have "h = []" using e by simp
    then show ?thesis using False by (simp add: output_log_def index_empty index_first)
  qed
next
  assume "h \<noteq> [] \<and> length l = length h"
  then show "\<exists>d. output_log h l now = Inr d"
    by (simp add: output_log_nonempty)
qed

theorem output_log_index_errors_witness:
  "output_log [] [(''u1'', '''')] ''t'' = Inl IndexError
   \<and> output_log [(''a'', '''')] [] ''t'' = Inl IndexError
   \<and> (\<exists>d. output_log [(''a'', '''')] [(''u1'', '''')] ''t'' = Inr d)"
  using output_log_index_errors [of "[]" "[(''u1'', '''')]" "''t''"]
    output_log_index_errors [of "[(''a'', '''')]" "[]" "''t''"]
    output_log_index_errors [of "[(''a'', '''')]" "[(''u1'', '''')]" "''t''"]
  by simp

section \<open>Streaming\<close>

text \<open>
  C7 as stated fails: a turn list of a complete turn and a turn that awaits its response,
  with an identity list whose first pair has no assistant uuid (the submit that follows the
  loading of an example over a stale pair leaves them so). The first partial response
  gives the last pair an assistant uuid, and the second, where only the last assistant
  message has grown, draws another uuid and writes the first pair's user uuid over the
  last pair's.
\<close>

theorem streaming_ids_stable_counterexample:
  "assign_uuid_seq [[(''ex'', ''R''), (''b'', ''B'')], [(''ex'', ''R''), (''b'', ''Bc'')]]
       [(''u1'', ''''), (''u2'', '''')] (entropy_from 0)
     = Inr ([[(''u1'', ''''), (''u2'', str_uuid (uuid_v4_bits 1))],
             [(''u1'', ''''), (''u1'', str_uuid (uuid_v4_bits 2))]], entropy_from 3)
   \<and> fst ([(''u1'', ''''), (''u1'', str_uuid (uuid_v4_bits 2))] ! 1)
       \<noteq> fst ([(''u1'', ''''), (''u2'', '''')] ! 1)"
  by (simp add: assign_uuid_def pop_def uuid4_str_entropy_from str_uuid_nonempty
      numeral_2_eq_2 numeral_3_eq_3)

text \<open>
  C7, amended: start from a turn list whose last turn awaits its response and an identity
  list that agrees with it at every position, and call \<open>assign_uuid\<close> once for each of a
  series of turn lists that differ from the first only in the last assistant message, each
  time non-empty. Then no call raises, every call returns the same identity list, namely
  the starting one with the empty assistant uuid of its last pair replaced by the first
  uuid drawn, exactly one uuid is drawn in the whole series, and the user uuids are those
  of the starting list.
\<close>

theorem streaming_ids_stable:
  assumes "list_all2 agrees (hs @ [(m, [])]) l0"
    and "p1 \<noteq> []" and "\<forall>p\<in>set ps. p \<noteq> []"
  shows "assign_uuid_seq (map (\<lambda>p. hs @ [(m, p)]) (p1 # ps)) l0 e
           = Inr (replicate (Suc (length ps))
                    (butlast l0 @ [(fst (last l0), fst (uuid4_str e))]),
                  snd (uuid4_str e))
         \<and> map fst (butlast l0 @ [(fst (last l0), fst (uuid4_str e))]) = map fst l0"
proof -
  from assms(1) obtain ls qs where l0: "l0 = ls @ qs" and ag: "list_all2 agrees hs ls"
    and last: "list_all2 agrees [(m, [])] qs"
    by (auto simp: list_all2_append1)
  from last obtain q where qs: "qs = [q]" and q: "snd q = []"
    by (auto simp: list_all2_Cons1 agrees_def)
  let ?u = "fst (uuid4_str e)"
  let ?l1 = "ls @ [(fst q, ?u)]"
  have len: "length hs = length ls" using ag by (rule list_all2_lengthD)
  have first: "assign_uuid (hs @ [(m, p1)]) l0 e = Inr (?l1, snd (uuid4_str e))"
    using assign_uuid_scan_last [OF ag, of "(m, p1)" q e] assms(2) q len
    by (simp add: assign_uuid_def l0 qs)
  have stable: "list_all2 agrees (hs @ [(m, p)]) ?l1" if "p \<noteq> []" for p
    using ag that uuid4_str_nonempty [of e] by (simp add: list_all2_appendI agrees_def)
  have rest: "assign_uuid_seq (map (\<lambda>p. hs @ [(m, p)]) ps) ?l1 (snd (uuid4_str e))
                = Inr (replicate (length ps) ?l1, snd (uuid4_str e))"
    using assign_uuid_seq_fixpoint [of "map (\<lambda>p. hs @ [(m, p)]) ps" ?l1 "snd (uuid4_str e)"]
      stable assms(3) by simp
  have "butlast l0 @ [(fst (last l0), ?u)] = ?l1" by (simp add: l0 qs)
  then show ?thesis using first rest by (simp add: l0 qs)
qed

theorem streaming_ids_stable_witness:
  "list_all2 agrees ([(''a'', ''A'')] @ [(''hi'', [])]) [(''u1'', ''x1''), (''u2'', [])]
   \<and> assign_uuid_seq [[(''a'', ''A''), (''hi'', ''H'')], [(''a'', ''A''), (''hi'', ''He'')],
                      [(''a'', ''A''), (''hi'', ''Hey'')]]
        [(''u1'', ''x1''), (''u2'', [])] (entropy_from 0)
       = Inr ([[(''u1'', ''x1''), (''u2'', str_uuid (uuid_v4_bits 0))],
               [(''u1'', ''x1''), (''u2'', str_uuid (uuid_v4_bits 0))],
               [(''u1'', ''x1''), (''u2'', str_uuid (uuid_v4_bits 0))]], entropy_from 1)"
proof -
  have a: "list_all2 agrees ([(''a'', ''A'')] @ [(''hi'', [])]) [(''u1'', ''x1''), (''u2'', [])]"
    by (simp add: agrees_def)
  have b: "''H'' \<noteq> []" by simp
  have c: "\<forall>p\<in>set [''He'', ''Hey'']. p \<noteq> []" by simp
  from streaming_ids_stable [OF a b c, of "entropy_from 0"] a
  show ?thesis by (simp add: uuid4_str_entropy_from)
qed




section \<open>Truncation\<close>

text \<open>
  C9: when the turn list is shorter than the identity list, \<open>assign_uuid\<close> returns the
  leading part of the identity list of the turn list's length, no pair changed and no uuid
  drawn; for the empty turn list it returns the empty list, whatever the identity list; and
  the chain of the clear button leaves the chatbot and \<open>uuid_list\<close> empty.
\<close>

theorem assign_uuid_truncates:
  "(length h < length l \<longrightarrow> assign_uuid h l e = Inr (take (length h) l, e))
   \<and> assign_uuid [] l e = Inr ([], e)
   \<and> chatbot (snd (run_chain clear_button_click True s)) = []
   \<and> uuid_list (snd (run_chain clear_button_click True s)) = []"
proof -
  have empty: "assign_uuid [] l' e' = Inr ([], e')" for l' e'
    by (cases l') (simp_all add: assign_uuid_def)
  have "run_chain clear_button_click True s
          = ([], s\<lparr>chatbot := [], saved_input := [], uuid_list := [],
                    output_textbox := []\<rparr>)"
    by (simp add: clear_button_click_def clear_step_def assign_uuid_step_def empty
        convert_history_to_str_step_def convert_history_to_str_def)
  then show ?thesis using empty by (simp add: assign_uuid_def)
qed

theorem assign_uuid_truncates_witness:
  "length [(''a'', ''A'')] < length [(''u1'', ''x1''), (''u2'', ''x2'')]
   \<and> assign_uuid [(''a'', ''A'')] [(''u1'', ''x1''), (''u2'', ''x2'')] (entropy_from 0)
       = Inr ([(''u1'', ''x1'')], entropy_from 0)
   \<and> assign_uuid [] [(''u1'', ''x1''), (''u2'', ''x2'')] (entropy_from 0)
       = Inr ([], entropy_from 0)
   \<and> uuid_list (snd (run_chain clear_button_click True sample_session)) = []"
  using assign_uuid_truncates
    [of "[(''a'', ''A'')]" "[(''u1'', ''x1''), (''u2'', ''x2'')]" "entropy_from 0"
        sample_session]
  by simp

end
